theory Spec2Isabelle
  imports Complex_Main "HOL-Library.Sublist"
begin

section \<open>Content-moderation pipeline: job store, classifier, worker, ingestion\<close>

text \<open>
  The repository holds three generations of the same pipeline. The first one (a server and
  a worker on a JSON file, the worker deciding by keywords alone) has no scores; its
  \<^verbatim>\<open>updatePostStatus\<close> is that of the second generation without the score fields. The
  second generation keeps the posts in the JSON file \<^verbatim>\<open>data/posts.json\<close> and asks a scoring
  service; the third keeps them in a MongoDB collection. The second and the third
  generation are embedded here. One operation runs at a time (no interleaving of two
  read-modify-write cycles is modelled), and a store is the list of its posts in the order
  of the file, respectively in the order of insertion.

  Conventions of the embedding:
  \<^item> a JavaScript string is a \<open>string\<close> of ASCII characters;
  \<^item> \<^verbatim>\<open>null\<close>, \<^verbatim>\<open>undefined\<close> and an absent field are \<open>None\<close>;
  \<^item> a score is a \<open>real\<close>: the decimal number that denotes the finite double the service
    returned. Two doubles compare as their decimal denotations do, so the comparisons of
    the source are comparisons of reals with the literals as written; where the source
    reads the double itself (\<^verbatim>\<open>toFixed\<close>), the model rounds the real to the nearest
    double first (\<open>double_of\<close>);
  \<^item> a point in time (\<^verbatim>\<open>new Date()\<close>, \<^verbatim>\<open>Date.now()\<close>) is an integer number of
    milliseconds, handed to the operation by its caller;
  \<^item> whether a file-system, database, queue or HTTP call throws is an input of the
    operation (a flag of its environment), and every \<^verbatim>\<open>try/catch\<close> of the source is a
    branch of the model;
  \<^item> console output is a list of lines; an error object printed after a message is
    left out of the line.
\<close>

subsection \<open>Data model\<close>

type_synonym timestamp = int

text \<open>The post object built by \<^verbatim>\<open>app.post('/api/posts')\<close> and updated by the workers.
  The field \<^verbatim>\<open>id\<close> is called \<open>pid\<close>.\<close>

record post =
  pid :: string
  title :: string
  content :: string
  author :: string
  status :: string
  server :: string
  worker :: "string option"
  moderationDetails :: "string option"
  createdAt :: timestamp
  processingTime :: "int option"
  toxicityScore :: "real option"
  reviewReason :: "string option"
  category :: string
  completedAt :: "timestamp option"

text \<open>The object returned by \<^verbatim>\<open>moderateContent\<close>.\<close>

record decision =
  status_r :: string
  moderationDetails_r :: string
  toxicityScore_r :: "real option"
  reviewReason_r :: "string option"

text \<open>What the code can throw: the error that \<^verbatim>\<open>writePosts\<close> rethrows, the \<^verbatim>\<open>SyntaxError\<close>
  of \<^verbatim>\<open>JSON.parse\<close>, and the \<^verbatim>\<open>TypeError\<close> of calling \<^verbatim>\<open>toLowerCase\<close> on a value that is
  not a string.\<close>

datatype error = WriteError | SyntaxError | TypeError

subsection \<open>JavaScript primitives used by the code\<close>

text \<open>Truthiness of a string-or-null and of a number-or-null value: \<^verbatim>\<open>if (v)\<close>.\<close>

definition truthy_str :: "string option \<Rightarrow> bool" where
  "truthy_str v = (case v of None \<Rightarrow> False | Some s \<Rightarrow> s \<noteq> [])"

definition truthy_num :: "int option \<Rightarrow> bool" where
  "truthy_num v = (case v of None \<Rightarrow> False | Some n \<Rightarrow> n \<noteq> 0)"

text \<open>The string of a value that is known to be a string (a truthy one, say).\<close>

definition str_of :: "string option \<Rightarrow> string" where
  "str_of v = (case v of None \<Rightarrow> [] | Some s \<Rightarrow> s)"

text \<open>\<^verbatim>\<open>String.prototype.toLowerCase\<close> on ASCII text.\<close>

definition lower_char :: "char \<Rightarrow> char" where
  "lower_char c =
     (case map_of (zip ''ABCDEFGHIJKLMNOPQRSTUVWXYZ'' ''abcdefghijklmnopqrstuvwxyz'') c of
        Some l \<Rightarrow> l
      | None \<Rightarrow> c)"

definition toLowerCase :: "string \<Rightarrow> string" where
  "toLowerCase s = map lower_char s"

text \<open>\<^verbatim>\<open>s.includes(k)\<close>: \<open>k\<close> occurs in \<open>s\<close> as a contiguous run.\<close>

definition str_includes :: "string \<Rightarrow> string \<Rightarrow> bool" where
  "str_includes s k = sublist k s"

text \<open>\<^verbatim>\<open>Array.prototype.findIndex\<close>; the result \<^verbatim>\<open>-1\<close> is \<open>None\<close>.\<close>

fun findIndex :: "('a \<Rightarrow> bool) \<Rightarrow> 'a list \<Rightarrow> nat option" where
  "findIndex P [] = None"
| "findIndex P (x # xs) =
     (if P x then Some 0 else (case findIndex P xs of None \<Rightarrow> None | Some i \<Rightarrow> Some (Suc i)))"

text \<open>The double nearest to a real number (round to nearest, ties to even), for numbers
  within the range of the finite doubles. \<open>binary_exponent\<close> finds the \<open>e\<close> with
  \<open>2^e \<le> a < 2^(e+1)\<close> in at most as many steps as doubles have exponents; below
  \<open>2^-1022\<close> the spacing of the subnormal doubles applies.\<close>

definition pow2 :: "int \<Rightarrow> real" where
  "pow2 e = (if e \<ge> 0 then 2 ^ nat e else 1 / 2 ^ nat (- e))"

definition round_half_even :: "real \<Rightarrow> int" where
  "round_half_even y =
     (let f = \<lfloor>y\<rfloor>; r = y - of_int f
      in if r < 1 / 2 then f else if r > 1 / 2 then f + 1 else if even f then f else f + 1)"

fun binary_exponent :: "nat \<Rightarrow> real \<Rightarrow> int" where
  "binary_exponent 0 a = 0"
| "binary_exponent (Suc k) a =
     (if a \<ge> 2 then binary_exponent k (a / 2) + 1
      else if a < 1 then binary_exponent k (a * 2) - 1
      else 0)"

definition double_of :: "real \<Rightarrow> real" where
  "double_of x =
     (if x = 0 then 0
      else
        (let a = \<bar>x\<bar>;
             e = max (binary_exponent 1100 a) (- 1022);
             ulp = pow2 (e - 52)
         in sgn x * of_int (round_half_even (a / ulp)) * ulp))"

text \<open>\<^verbatim>\<open>Number.prototype.toFixed(2)\<close> for a number of magnitude below \<open>10^21\<close>: the multiple
  of \<open>1/100\<close> nearest to the double, the larger one at a tie, printed with two decimals.\<close>

definition digit_char :: "nat \<Rightarrow> char" where
  "digit_char d = ''0123456789'' ! (d mod 10)"

function show_nat :: "nat \<Rightarrow> string" where
  "show_nat n = (if n < 10 then [digit_char n] else show_nat (n div 10) @ [digit_char (n mod 10)])"
  by pat_completeness auto
termination
  by (relation "measure (\<lambda>n. n)") auto

declare show_nat.simps [simp del]

definition toFixed2 :: "real \<Rightarrow> string" where
  "toFixed2 x =
     (let d = double_of x;
          n = nat \<lfloor>\<bar>d\<bar> * 100 + 1 / 2\<rfloor>
      in (if d < 0 then ''-'' else '''') @ show_nat (n div 100) @ ''.'' @
         [digit_char ((n div 10) mod 10), digit_char (n mod 10)])"

subsection \<open>Classifier: \<^verbatim>\<open>moderateContent\<close>\<close>

text \<open>
  The same function stands in the file-store worker and in the MongoDB worker (they
  differ in the prefix of the line logged on an error). The scoring service is the
  parameter \<open>api\<close>: the three summary scores (toxicity, insult, profanity) it answers
  for a text, or \<open>None\<close> when anything inside the \<^verbatim>\<open>try\<close> block throws (a network
  error, a timeout, an error status, a malformed answer). The second component of the
  result lists the texts that were sent to the service. The three parts of the details
  string that both score branches share are \<open>scoreDetails\<close>.
\<close>

type_synonym scores = "real \<times> real \<times> real"

definition blockedKeywords :: "string list" where
  "blockedKeywords = [''fuck'', ''nigger'']"

definition scoreDetails :: "real \<Rightarrow> real \<Rightarrow> real \<Rightarrow> string" where
  "scoreDetails toxicityScore' insultScore profanityScore =
     ''toxicity='' @ toFixed2 toxicityScore' @ '', insult='' @ toFixed2 insultScore @
     '', profanity='' @ toFixed2 profanityScore"

definition moderateContent :: "(string \<Rightarrow> scores option) \<Rightarrow> string \<Rightarrow> decision \<times> string list" where
  "moderateContent api content' =
     (let lowercaseContent = toLowerCase content';
          foundKeyword = find (\<lambda>keyword. str_includes lowercaseContent keyword) blockedKeywords
      in if truthy_str foundKeyword then
           (\<lparr>status_r = ''rejected'',
             moderationDetails_r =
               ''Content rejected due to egregious keyword: '' @ str_of foundKeyword,
             toxicityScore_r = None,
             reviewReason_r = None\<rparr>, [])
         else
           (case api content' of
              Some (toxicityScore', insultScore, profanityScore) \<Rightarrow>
                (let maxScore = max toxicityScore' (max insultScore profanityScore)
                 in if maxScore > 0.8 then
                      (\<lparr>status_r = ''rejected'',
                        moderationDetails_r = ''Content rejected due to high scores: '' @
                          scoreDetails toxicityScore' insultScore profanityScore,
                        toxicityScore_r = Some maxScore,
                        reviewReason_r = None\<rparr>, [content'])
                    else if maxScore \<ge> 0.5 then
                      (\<lparr>status_r = ''needs_review'',
                        moderationDetails_r = ''Content flagged for human review: '' @
                          scoreDetails toxicityScore' insultScore profanityScore,
                        toxicityScore_r = Some maxScore,
                        reviewReason_r = Some ''Borderline content requiring human evaluation''\<rparr>,
                       [content'])
                    else
                      (\<lparr>status_r = ''approved'',
                        moderationDetails_r = ''Content approved: '' @
                          scoreDetails toxicityScore' insultScore profanityScore,
                        toxicityScore_r = Some maxScore,
                        reviewReason_r = None\<rparr>, [content']))
            | None \<Rightarrow>
                (\<lparr>status_r = ''needs_review'',
                  moderationDetails_r = ''Failed to analyze content with Perspective API'',
                  toxicityScore_r = None,
                  reviewReason_r = Some ''API error, requires human review''\<rparr>, [content'])))"

subsection \<open>Status update of the workers: \<^verbatim>\<open>updatePostStatus\<close>\<close>

text \<open>What the outside world does during one status update: the time read by
  \<^verbatim>\<open>new Date()\<close>, whether reading and parsing \<^verbatim>\<open>posts.json\<close> succeeds, whether the
  atomic write of the file succeeds, and (MongoDB worker) whether the database call
  succeeds.\<close>

record io =
  now :: timestamp
  read_ok :: bool
  write_ok :: bool
  db_ok :: bool

text \<open>\<^verbatim>\<open>readPosts\<close> answers the empty array when the file cannot be read or parsed;
  \<^verbatim>\<open>writePosts\<close> of the worker logs and rethrows.\<close>

definition readPosts :: "bool \<Rightarrow> post list \<Rightarrow> post list \<times> string list" where
  "readPosts ok file = (if ok then (file, []) else ([], [''Error reading posts:'']))"

definition writePosts :: "bool \<Rightarrow> post list \<Rightarrow> (error + post list) \<times> string list" where
  "writePosts ok posts = (if ok then (Inr posts, []) else (Inl WriteError, [''Error writing posts:'']))"

text \<open>The assignments that \<^verbatim>\<open>updatePostStatus\<close> makes to the post it found. The MongoDB
  worker collects the same fields under the same conditions in the document it passes
  to \<^verbatim>\<open>$set\<close>, so the function is also the effect of that update on a document.\<close>

definition assignFields ::
  "string \<Rightarrow> string \<Rightarrow> string option \<Rightarrow> int option \<Rightarrow> real option \<Rightarrow> string option \<Rightarrow>
   timestamp \<Rightarrow> post \<Rightarrow> post" where
  "assignFields status' workerId moderationDetails' processingTime' toxicityScore' reviewReason' t p =
     (let p1 = p\<lparr>status := status', worker := Some workerId\<rparr>;
          p2 = (if truthy_str moderationDetails' then p1\<lparr>moderationDetails := moderationDetails'\<rparr> else p1);
          p3 = (if truthy_num processingTime' then p2\<lparr>processingTime := processingTime'\<rparr> else p2);
          p4 = (if toxicityScore' \<noteq> None then p3\<lparr>toxicityScore := toxicityScore'\<rparr> else p3);
          p5 = (if truthy_str reviewReason' then p4\<lparr>reviewReason := reviewReason'\<rparr> else p4)
      in if status' = ''approved'' \<or> status' = ''rejected'' then p5\<lparr>completedAt := Some t\<rparr> else p5)"

text \<open>File-store worker. The result is the content of \<^verbatim>\<open>posts.json\<close> afterwards and the
  lines logged. The function has no way to fail: the outer \<^verbatim>\<open>catch\<close> turns every error
  into a log line.\<close>

definition updatePostStatus ::
  "io \<Rightarrow> string \<Rightarrow> string \<Rightarrow> string \<Rightarrow> string option \<Rightarrow> int option \<Rightarrow> real option \<Rightarrow>
   string option \<Rightarrow> post list \<Rightarrow> post list \<times> string list" where
  "updatePostStatus e postId status' workerId moderationDetails' processingTime' toxicityScore'
     reviewReason' file =
     (case readPosts (read_ok e) file of
        (posts, l1) \<Rightarrow>
          (case findIndex (\<lambda>p. pid p = postId) posts of
             Some postIndex \<Rightarrow>
               (let posts' = posts[postIndex :=
                      assignFields status' workerId moderationDetails' processingTime'
                        toxicityScore' reviewReason' (now e) (posts ! postIndex)]
                in case writePosts (write_ok e) posts' of
                     (Inr file', l2) \<Rightarrow>
                       (file', l1 @ l2 @ [''Updated post '' @ postId @ '' status to '' @ status'])
                   | (Inl err, l2) \<Rightarrow>
                       (file, l1 @ l2 @ [''Error updating post '' @ postId @ '':'']))
           | None \<Rightarrow> (file, l1 @ [''Post '' @ postId @ '' not found''])))"

text \<open>\<^verbatim>\<open>collection.updateOne({id: i}, {$set: ...})\<close>: the first document whose \<^verbatim>\<open>id\<close> is
  \<open>i\<close> is updated; the second component is \<^verbatim>\<open>matchedCount\<close>. No document is inserted
  (the call has no \<^verbatim>\<open>upsert\<close> option).\<close>

definition updateOne :: "string \<Rightarrow> (post \<Rightarrow> post) \<Rightarrow> post list \<Rightarrow> post list \<times> nat" where
  "updateOne i upd coll =
     (case findIndex (\<lambda>d. pid d = i) coll of
        None \<Rightarrow> (coll, 0)
      | Some k \<Rightarrow> (coll[k := upd (coll ! k)], 1))"

text \<open>MongoDB worker. The lines it logs start with the global \<^verbatim>\<open>WORKER_ID\<close>, which is
  also the \<open>workerId\<close> of every call in the source.\<close>

definition updatePostStatus_mongo ::
  "io \<Rightarrow> string \<Rightarrow> string \<Rightarrow> string \<Rightarrow> string option \<Rightarrow> int option \<Rightarrow> real option \<Rightarrow>
   string option \<Rightarrow> post list \<Rightarrow> post list \<times> string list" where
  "updatePostStatus_mongo e postId status' workerId moderationDetails' processingTime' toxicityScore'
     reviewReason' coll =
     (let update = assignFields status' workerId moderationDetails' processingTime'
                     toxicityScore' reviewReason' (now e)
      in if db_ok e then
           (case updateOne postId update coll of
              (coll', matchedCount) \<Rightarrow>
                if matchedCount = 0 then (coll', [workerId @ '': Post '' @ postId @ '' not found''])
                else (coll', [workerId @ '': Updated post '' @ postId @ '' status to '' @ status']))
         else (coll, [workerId @ '': Error updating post '' @ postId @ '':'']))"

subsection \<open>Message handler of the workers\<close>

text \<open>
  The callback given to \<^verbatim>\<open>channel.consume\<close> in \<^verbatim>\<open>connectAndConsume\<close>. What arrives is
  \<^verbatim>\<open>null\<close> (\<open>None\<close>, a cancelled consumer) or a message. The content of a message is
  either not JSON, so that \<^verbatim>\<open>JSON.parse\<close> throws, or an object of which the handler reads
  \<^verbatim>\<open>id\<close> (a string, as the server writes it) and \<^verbatim>\<open>content\<close>. The server publishes any
  truthy \<^verbatim>\<open>content\<close>, so it is a string or a value of another kind (a number, a boolean, an
  array, an object; also \<^verbatim>\<open>null\<close> or nothing in a message from elsewhere).
\<close>

datatype jvalue = JString string | JOther

datatype delivery = Unparsable | Parsed string jvalue

text \<open>The message that the server publishes for a post whose content is a string.\<close>

definition message_of :: "post \<Rightarrow> delivery" where
  "message_of p = Parsed (pid p) (JString (content p))"

text \<open>
  \<open>e1\<close> and \<open>e2\<close> are the environments of the two status updates, \<open>startTime\<close> and
  \<open>endTime\<close> the two readings of \<^verbatim>\<open>Date.now()\<close>. The result records the store afterwards,
  whether \<^verbatim>\<open>channel.ack(msg)\<close> was reached, the error that left the handler if one did, the
  texts sent to the scoring service and the lines logged by the handler and by the status
  updates (the line that \<^verbatim>\<open>moderateContent\<close> logs when the scoring call fails is left out).
  The handler has no \<^verbatim>\<open>try\<close>: an error of \<^verbatim>\<open>JSON.parse\<close> leaves it at once, and
  \<^verbatim>\<open>moderateContent\<close> called with a content that is not a string throws at
  \<^verbatim>\<open>content.toLowerCase()\<close>, its first statement and outside its \<^verbatim>\<open>try\<close>, after the first
  status update and before the second one and the acknowledgement.
\<close>

record outcome =
  store_o :: "post list"
  acked :: bool
  thrown :: "error option"
  calls :: "string list"
  log_o :: "string list"

definition onMessage ::
  "io \<Rightarrow> io \<Rightarrow> (string \<Rightarrow> scores option) \<Rightarrow> timestamp \<Rightarrow> timestamp \<Rightarrow> string \<Rightarrow>
   delivery option \<Rightarrow> post list \<Rightarrow> outcome" where
  "onMessage e1 e2 api startTime endTime WORKER_ID msg file =
     (case msg of
        None \<Rightarrow> \<lparr>store_o = file, acked = False, thrown = None, calls = [], log_o = []\<rparr>
      | Some Unparsable \<Rightarrow>
          \<lparr>store_o = file, acked = False, thrown = Some SyntaxError, calls = [], log_o = []\<rparr>
      | Some (Parsed post_id post_content) \<Rightarrow>
          (case updatePostStatus e1 post_id ''processing'' WORKER_ID None None None None file of
             (file1, l1) \<Rightarrow>
               (case post_content of
                  JOther \<Rightarrow>
                    \<lparr>store_o = file1, acked = False, thrown = Some TypeError, calls = [],
                      log_o = [WORKER_ID @ '' processing post '' @ post_id] @ l1\<rparr>
                | JString text \<Rightarrow>
                    (case moderateContent api text of
                       (d, sent) \<Rightarrow>
                         (let processingTime' = endTime - startTime
                          in case updatePostStatus e2 post_id (status_r d) WORKER_ID
                                    (Some (moderationDetails_r d)) (Some processingTime')
                                    (toxicityScore_r d) (reviewReason_r d) file1 of
                               (file2, l2) \<Rightarrow>
                                 \<lparr>store_o = file2, acked = True, thrown = None, calls = sent,
                                   log_o = [WORKER_ID @ '' processing post '' @ post_id] @
                                           l1 @ l2\<rparr>)))))"

definition onMessage_mongo ::
  "io \<Rightarrow> io \<Rightarrow> (string \<Rightarrow> scores option) \<Rightarrow> timestamp \<Rightarrow> timestamp \<Rightarrow> string \<Rightarrow>
   delivery option \<Rightarrow> post list \<Rightarrow> outcome" where
  "onMessage_mongo e1 e2 api startTime endTime WORKER_ID msg coll =
     (case msg of
        None \<Rightarrow> \<lparr>store_o = coll, acked = False, thrown = None, calls = [], log_o = []\<rparr>
      | Some Unparsable \<Rightarrow>
          \<lparr>store_o = coll, acked = False, thrown = Some SyntaxError, calls = [], log_o = []\<rparr>
      | Some (Parsed post_id post_content) \<Rightarrow>
          (case updatePostStatus_mongo e1 post_id ''processing'' WORKER_ID None None None None coll of
             (coll1, l1) \<Rightarrow>
               (case post_content of
                  JOther \<Rightarrow>
                    \<lparr>store_o = coll1, acked = False, thrown = Some TypeError, calls = [],
                      log_o = [WORKER_ID @ '': Processing post '' @ post_id] @ l1\<rparr>
                | JString text \<Rightarrow>
                    (case moderateContent api text of
                       (d, sent) \<Rightarrow>
                         (let processingTime' = endTime - startTime
                          in case updatePostStatus_mongo e2 post_id (status_r d) WORKER_ID
                                    (Some (moderationDetails_r d)) (Some processingTime')
                                    (toxicityScore_r d) (reviewReason_r d) coll1 of
                               (coll2, l2) \<Rightarrow>
                                 \<lparr>store_o = coll2, acked = True, thrown = None, calls = sent,
                                   log_o = [WORKER_ID @ '': Processing post '' @ post_id] @
                                           l1 @ l2\<rparr>)))))"

subsection \<open>Ingestion: \<^verbatim>\<open>app.post('/api/posts')\<close>\<close>

text \<open>The fields read from the request body; a field that is missing or \<^verbatim>\<open>null\<close> is
  \<open>None\<close>.\<close>

record request =
  title_b :: "string option"
  content_b :: "string option"
  author_b :: "string option"
  server_b :: "string option"
  category_b :: "string option"

text \<open>What the outside world does during one submission: the identifier drawn by
  \<^verbatim>\<open>uuidv4()\<close>, the time, whether the global \<^verbatim>\<open>channel\<close> has been assigned, and which
  of the calls throw. The server assigns \<^verbatim>\<open>channel\<close> once connected and never resets it, so
  a channel that has closed since is still truthy and makes \<^verbatim>\<open>sendToQueue\<close> throw
  (\<open>send_ok\<close> is false).\<close>

record submit_env =
  uuid :: string
  clock :: timestamp
  sread_ok :: bool
  swrite_ok :: bool
  backup_ok :: bool
  insert_ok :: bool
  update_ok :: bool
  channel :: bool
  send_ok :: bool

datatype json_body = ErrorBody string | PostBody post

record response =
  code :: nat
  body :: json_body

text \<open>\<^verbatim>\<open>v || d\<close> on a string-or-null value.\<close>

definition or_default :: "string option \<Rightarrow> string \<Rightarrow> string" where
  "or_default v d = (case v of None \<Rightarrow> d | Some s \<Rightarrow> if s \<noteq> [] then s else d)"

definition newPost :: "submit_env \<Rightarrow> request \<Rightarrow> post" where
  "newPost e req =
     \<lparr>pid = uuid e,
      title = str_of (title_b req),
      content = str_of (content_b req),
      author = str_of (author_b req),
      status = ''pending'',
      server = or_default (server_b req) ''server1'',
      worker = None,
      moderationDetails = None,
      createdAt = clock e,
      processingTime = None,
      toxicityScore = None,
      reviewReason = None,
      category = or_default (category_b req) ''general'',
      completedAt = None\<rparr>"

text \<open>\<^verbatim>\<open>writePosts\<close> of the server writes \<^verbatim>\<open>posts.json\<close> and then a backup copy; an
  error of either write is logged and rethrown. The second component is the content
  of \<^verbatim>\<open>posts.json\<close> afterwards.\<close>

definition writePosts_server ::
  "bool \<Rightarrow> bool \<Rightarrow> post list \<Rightarrow> post list \<Rightarrow> (error + unit) \<times> post list \<times> string list" where
  "writePosts_server wok bok posts file =
     (if \<not> wok then (Inl WriteError, file, [''Error writing posts:''])
      else if \<not> bok then (Inl WriteError, posts, [''Error writing posts:''])
      else (Inr (), posts, []))"

definition invalid_request :: "request \<Rightarrow> bool" where
  "invalid_request req =
     (\<not> truthy_str (title_b req) \<or> \<not> truthy_str (content_b req) \<or> \<not> truthy_str (author_b req))"

text \<open>File-store server. The state is the content of \<^verbatim>\<open>posts.json\<close> and the messages
  in \<^verbatim>\<open>moderation_queue\<close>; the result is the response, the state afterwards and the
  lines logged.\<close>

definition post_api_posts ::
  "submit_env \<Rightarrow> request \<Rightarrow> post list \<times> post list \<Rightarrow>
   response \<times> (post list \<times> post list) \<times> string list" where
  "post_api_posts e req sys =
     (case sys of
        (file, queue) \<Rightarrow>
          if invalid_request req then
            (\<lparr>code = 400, body = ErrorBody ''Title, content, and author are required''\<rparr>,
             (file, queue), [])
          else
            (let post' = newPost e req
             in case readPosts (sread_ok e) file of
                  (posts, l1) \<Rightarrow>
                    (case writePosts_server (swrite_ok e) (backup_ok e) (posts @ [post']) file of
                       (Inl err, file', l2) \<Rightarrow>
                         (\<lparr>code = 500, body = ErrorBody ''Failed to add post''\<rparr>,
                          (file', queue), l1 @ l2 @ [''Error adding post:''])
                     | (Inr u, file', l2) \<Rightarrow>
                         if channel e then
                           (if send_ok e then
                              (\<lparr>code = 201, body = PostBody post'\<rparr>,
                               (file', queue @ [post']), l1 @ l2)
                            else
                              (\<lparr>code = 500, body = ErrorBody ''Failed to add post''\<rparr>,
                               (file', queue), l1 @ l2 @ [''Error adding post:'']))
                         else
                           (\<lparr>code = 201, body = PostBody post'\<rparr>, (file', queue),
                            l1 @ l2 @
                            [''RabbitMQ channel not available, post will not be processed'']))))"

text \<open>MongoDB server: the post is inserted as \<^verbatim>\<open>pending\<close>; when the channel is there the
  message is published and the stored and the returned post become \<^verbatim>\<open>processing\<close>. The
  \<^verbatim>\<open>_id\<close> that the database driver adds to the inserted object is left out.\<close>

definition post_api_posts_mongo ::
  "submit_env \<Rightarrow> request \<Rightarrow> post list \<times> post list \<Rightarrow>
   response \<times> (post list \<times> post list) \<times> string list" where
  "post_api_posts_mongo e req sys =
     (case sys of
        (coll, queue) \<Rightarrow>
          if invalid_request req then
            (\<lparr>code = 400, body = ErrorBody ''Title, content, and author are required''\<rparr>,
             (coll, queue), [])
          else
            (let post' = newPost e req
             in if \<not> insert_ok e then
                  (\<lparr>code = 500, body = ErrorBody ''Failed to add post''\<rparr>,
                   (coll, queue), [''Error adding post:''])
                else if channel e then
                  (if \<not> send_ok e then
                     (\<lparr>code = 500, body = ErrorBody ''Failed to add post''\<rparr>,
                      (coll @ [post'], queue), [''Error adding post:''])
                   else if \<not> update_ok e then
                     (\<lparr>code = 500, body = ErrorBody ''Failed to add post''\<rparr>,
                      (coll @ [post'], queue @ [post']), [''Error adding post:''])
                   else
                     (\<lparr>code = 201, body = PostBody (post'\<lparr>status := ''processing''\<rparr>)\<rparr>,
                      (fst (updateOne (pid post') (\<lambda>d. d\<lparr>status := ''processing''\<rparr>)
                              (coll @ [post'])),
                       queue @ [post']), []))
                else
                  (\<lparr>code = 201, body = PostBody post'\<rparr>, (coll @ [post'], queue),
                   [''RabbitMQ channel not available, post will not be processed''])))"

subsection \<open>Notions used to state the properties\<close>

text \<open>The deny-list check passes: no blocked keyword occurs in the lower-cased text.\<close>

definition passes_deny_list :: "string \<Rightarrow> bool" where
  "passes_deny_list c = (\<forall>k \<in> set blockedKeywords. \<not> str_includes (toLowerCase c) k)"

text \<open>Containment under case-insensitive comparison, in the words of the specification: some
  contiguous piece of the text equals the term when the case of the letters is ignored.\<close>

definition equal_ignoring_case :: "string \<Rightarrow> string \<Rightarrow> bool" where
  "equal_ignoring_case u v = (toLowerCase u = toLowerCase v)"

definition contains_ci :: "string \<Rightarrow> string \<Rightarrow> bool" where
  "contains_ci c k = (\<exists>w \<in> set (sublists c). equal_ignoring_case w k)"

text \<open>The terminal statuses, and the part of the \<^verbatim>\<open>completedAt\<close> invariant that the store keeps:
  every record with a terminal status has a completion time.\<close>

definition terminal :: "string \<Rightarrow> bool" where
  "terminal s = (s = ''approved'' \<or> s = ''rejected'')"

definition completed_if_terminal :: "post list \<Rightarrow> bool" where
  "completed_if_terminal st = (\<forall>p \<in> set st. terminal (status p) \<longrightarrow> completedAt p \<noteq> None)"

text \<open>The input fields of a post, which no status update may change.\<close>

definition frame :: "post \<Rightarrow> string \<times> string \<times> string \<times> string \<times> string \<times> string \<times> timestamp" where
  "frame p = (pid p, title p, content p, author p, category p, server p, createdAt p)"


subsection \<open>Example data\<close>

text \<open>A scoring stub that gives the same answer for every text, environments in which every
  call succeeds or the store write fails, and the submission
  \<^verbatim>\<open>{title: "t", content: "this is great", author: "a"}\<close> with the post it creates.\<close>

definition stub :: "scores option \<Rightarrow> string \<Rightarrow> scores option" where
  "stub r txt = r"

definition io_ok :: "timestamp \<Rightarrow> io" where
  "io_ok t = \<lparr>now = t, read_ok = True, write_ok = True, db_ok = True\<rparr>"

definition io_write_fails :: "timestamp \<Rightarrow> io" where
  "io_write_fails t = \<lparr>now = t, read_ok = True, write_ok = False, db_ok = False\<rparr>"

definition example_request :: request where
  "example_request =
     \<lparr>title_b = Some ''t'', content_b = Some ''this is great'', author_b = Some ''a'',
      server_b = None, category_b = None\<rparr>"

definition example_env :: "bool \<Rightarrow> submit_env" where
  "example_env ch =
     \<lparr>uuid = ''id-1'', clock = 1000, sread_ok = True, swrite_ok = True, backup_ok = True,
      insert_ok = True, update_ok = True, channel = ch, send_ok = True\<rparr>"

definition example_env_closed :: submit_env where
  "example_env_closed =
     \<lparr>uuid = ''id-1'', clock = 1000, sread_ok = True, swrite_ok = True, backup_ok = True,
      insert_ok = True, update_ok = True, channel = True, send_ok = False\<rparr>"

definition example_post :: post where
  "example_post =
     \<lparr>pid = ''id-1'', title = ''t'', content = ''this is great'', author = ''a'',
      status = ''pending'', server = ''server1'', worker = None, moderationDetails = None,
      createdAt = 1000, processingTime = None, toxicityScore = None, reviewReason = None,
      category = ''general'', completedAt = None\<rparr>"

definition other_post :: post where
  "other_post = example_post\<lparr>pid := ''id-2'', title := ''u'', content := ''second post''\<rparr>"

text \<open>The store after the example post was approved at time 2000, and after the same message
  was delivered again and the worker wrote \<^verbatim>\<open>processing\<close> at time 3000.\<close>

definition after_approval :: "post list" where
  "after_approval =
     fst (updatePostStatus (io_ok 2000) ''id-1'' ''approved'' ''worker-4001''
            (Some ''Content approved'') (Some 12) (Some 0.2) None [example_post])"

definition after_redelivery :: "post list" where
  "after_redelivery =
     fst (updatePostStatus (io_ok 3000) ''id-1'' ''processing'' ''worker-4001''
            None None None None after_approval)"



section \<open>Basic facts\<close>

subsection \<open>Searching and updating the list of posts\<close>

lemma findIndex_None: "findIndex P xs = None \<longleftrightarrow> (\<forall>x \<in> set xs. \<not> P x)"
  by (induction xs) (auto split: option.splits)

lemma findIndex_Some:
  "findIndex P xs = Some k \<Longrightarrow> k < length xs \<and> P (xs ! k) \<and> (\<forall>j<k. \<not> P (xs ! j))"
proof (induction xs arbitrary: k)
  case Nil
  then show ?case by simp
next
  case (Cons x xs)
  show ?case
  proof (cases "P x")
    case True
    with Cons.prems show ?thesis by simp
  next
    case False
    with Cons.prems obtain k' where k': "findIndex P xs = Some k'" "k = Suc k'"
      by (auto split: option.splits)
    from Cons.IH[OF k'(1)] False k'(2) show ?thesis
      by (auto simp: less_Suc_eq_0_disj)
  qed
qed

lemma findIndex_map:
  "findIndex (\<lambda>p. g p = i) xs = findIndex (\<lambda>v. v = i) (map g xs)"
  by (induction xs) auto

lemma findIndex_cong_map:
  "map g ys = map g xs \<Longrightarrow> findIndex (\<lambda>p. g p = i) ys = findIndex (\<lambda>p. g p = i) xs"
  by (metis findIndex_map)

lemma updateOne_length: "length (fst (updateOne i f xs)) = length xs"
  by (simp add: updateOne_def split: option.splits)

lemma updateOne_nth:
  "j < length xs \<Longrightarrow>
   fst (updateOne i f xs) ! j =
     (if findIndex (\<lambda>d. pid d = i) xs = Some j then f (xs ! j) else xs ! j)"
  by (auto simp: updateOne_def nth_list_update split: option.splits)

lemma updateOne_absent: "i \<notin> pid ` set xs \<Longrightarrow> updateOne i f xs = (xs, 0)"
proof -
  assume "i \<notin> pid ` set xs"
  then have "findIndex (\<lambda>d. pid d = i) xs = None"
    by (auto simp: findIndex_None)
  then show ?thesis by (simp add: updateOne_def)
qed

lemma updateOne_map:
  assumes "\<And>p. g (f p) = g p"
  shows "map g (fst (updateOne i f xs)) = map g xs"
  by (rule nth_equalityI) (auto simp: updateOne_length updateOne_nth assms)

lemma updateOne_nth_cases:
  assumes "p \<in> set (fst (updateOne i f st))"
  shows "p \<in> set st \<or> (\<exists>q \<in> set st. p = f q)"
proof -
  from assms obtain j where j: "j < length st" "p = fst (updateOne i f st) ! j"
    by (auto simp: in_set_conv_nth updateOne_length)
  then show ?thesis
    by (auto simp: updateOne_nth split: if_splits)
qed



subsection \<open>The assignments of a status update\<close>

lemma assignFields_frame:
  "pid (assignFields s w md pt ts rr t p) = pid p"
  "title (assignFields s w md pt ts rr t p) = title p"
  "content (assignFields s w md pt ts rr t p) = content p"
  "author (assignFields s w md pt ts rr t p) = author p"
  "category (assignFields s w md pt ts rr t p) = category p"
  "server (assignFields s w md pt ts rr t p) = server p"
  "createdAt (assignFields s w md pt ts rr t p) = createdAt p"
  by (simp_all add: assignFields_def Let_def)

lemma assignFields_written:
  "status (assignFields s w md pt ts rr t p) = s"
  "worker (assignFields s w md pt ts rr t p) = Some w"
  "completedAt (assignFields s w md pt ts rr t p) =
     (if s = ''approved'' \<or> s = ''rejected'' then Some t else completedAt p)"
  "reviewReason (assignFields s w md pt ts rr t p) =
     (if truthy_str rr then rr else reviewReason p)"
  "toxicityScore (assignFields s w md pt ts rr t p) =
     (if ts \<noteq> None then ts else toxicityScore p)"
  by (simp_all add: assignFields_def Let_def)


lemma assignFields_terminal:
  "terminal (status (assignFields s w md pt ts rr t p)) \<Longrightarrow>
   completedAt (assignFields s w md pt ts rr t p) \<noteq> None"
  by (simp add: assignFields_written terminal_def)


lemma frame_assignFields: "frame (assignFields s w md pt ts rr t p) = frame p"
  by (simp add: frame_def assignFields_frame)

subsection \<open>Effect of a status update on the store\<close>

text \<open>Both workers change the store in the same way: when the store calls succeed, the first
  post with the given identifier receives the assignments; otherwise nothing changes.\<close>

lemma fst_updatePostStatus:
  "fst (updatePostStatus e i s w md pt ts rr file) =
     (if read_ok e \<and> write_ok e
      then fst (updateOne i (assignFields s w md pt ts rr (now e)) file) else file)"
  by (auto simp: updatePostStatus_def readPosts_def writePosts_def updateOne_def Let_def
           split: option.splits)

lemma fst_updatePostStatus_mongo:
  "fst (updatePostStatus_mongo e i s w md pt ts rr coll) =
     (if db_ok e then fst (updateOne i (assignFields s w md pt ts rr (now e)) coll) else coll)"
  by (auto simp: updatePostStatus_mongo_def Let_def split: prod.splits)

lemma updatePostStatus_pids:
  "map pid (fst (updatePostStatus e i s w md pt ts rr st)) = map pid st"
  by (simp add: fst_updatePostStatus updateOne_map assignFields_frame)

lemma updatePostStatus_mongo_pids:
  "map pid (fst (updatePostStatus_mongo e i s w md pt ts rr st)) = map pid st"
  by (simp add: fst_updatePostStatus_mongo updateOne_map assignFields_frame)

lemma updatePostStatus_findIndex:
  "findIndex (\<lambda>p. pid p = j) (fst (updatePostStatus e i s w md pt ts rr st)) =
   findIndex (\<lambda>p. pid p = j) st"
  by (rule findIndex_cong_map) (rule updatePostStatus_pids)

lemma updatePostStatus_mongo_findIndex:
  "findIndex (\<lambda>p. pid p = j) (fst (updatePostStatus_mongo e i s w md pt ts rr st)) =
   findIndex (\<lambda>p. pid p = j) st"
  by (rule findIndex_cong_map) (rule updatePostStatus_mongo_pids)

lemma updatePostStatus_found:
  assumes "read_ok e" "write_ok e" "findIndex (\<lambda>p. pid p = i) st = Some k"
  shows "fst (updatePostStatus e i s w md pt ts rr st) ! k =
           assignFields s w md pt ts rr (now e) (st ! k)"
  using assms findIndex_Some[OF assms(3)] by (simp add: fst_updatePostStatus updateOne_nth)

lemma updatePostStatus_mongo_found:
  assumes "db_ok e" "findIndex (\<lambda>p. pid p = i) st = Some k"
  shows "fst (updatePostStatus_mongo e i s w md pt ts rr st) ! k =
           assignFields s w md pt ts rr (now e) (st ! k)"
  using assms findIndex_Some[OF assms(2)] by (simp add: fst_updatePostStatus_mongo updateOne_nth)



lemma updatePostStatus_write_fails_log:
  assumes "read_ok e" "\<not> write_ok e" "i \<in> pid ` set st"
  shows "snd (updatePostStatus e i s w md pt ts rr st) =
           [''Error writing posts:'', ''Error updating post '' @ i @ '':'']"
proof -
  from assms(3) obtain k where "findIndex (\<lambda>p. pid p = i) st = Some k"
    by (cases "findIndex (\<lambda>p. pid p = i) st") (auto simp: findIndex_None)
  with assms(1,2) show ?thesis
    by (simp add: updatePostStatus_def readPosts_def writePosts_def Let_def)
qed

lemma updateOne_frame_props:
  assumes "\<And>p. frame (f p) = frame p"
  shows "length (fst (updateOne i f st)) = length st \<and>
         map frame (fst (updateOne i f st)) = map frame st \<and>
         (\<forall>j<length st. findIndex (\<lambda>p. pid p = i) st \<noteq> Some j \<longrightarrow> fst (updateOne i f st) ! j = st ! j) \<and>
         pid ` set (fst (updateOne i f st)) = pid ` set st"
proof -
  have m: "map frame (fst (updateOne i f st)) = map frame st"
    by (rule updateOne_map) (rule assms)
  have "map (fst \<circ> frame) (fst (updateOne i f st)) = map (fst \<circ> frame) st"
    using m by (simp only: map_map[symmetric])
  moreover have "fst \<circ> frame = pid" by (rule ext) (simp add: frame_def)
  ultimately have "map pid (fst (updateOne i f st)) = map pid st" by simp
  then have "set (map pid (fst (updateOne i f st))) = set (map pid st)" by simp
  then have "pid ` set (fst (updateOne i f st)) = pid ` set st" by (simp only: set_map)
  with m show ?thesis by (simp add: updateOne_length updateOne_nth)
qed


subsection \<open>The message handler\<close>

lemma onMessage_Some:
  "store_o (onMessage e1 e2 api t0 t1 w (Some (Parsed i (JString c))) file) =
     fst (updatePostStatus e2 i (status_r (fst (moderateContent api c))) w
            (Some (moderationDetails_r (fst (moderateContent api c))))
            (Some (t1 - t0))
            (toxicityScore_r (fst (moderateContent api c)))
            (reviewReason_r (fst (moderateContent api c)))
            (fst (updatePostStatus e1 i ''processing'' w None None None None file)))"
  "acked (onMessage e1 e2 api t0 t1 w (Some (Parsed i (JString c))) file)"
  "calls (onMessage e1 e2 api t0 t1 w (Some (Parsed i (JString c))) file) = snd (moderateContent api c)"
  by (simp_all add: onMessage_def Let_def split: prod.splits)

lemma onMessage_mongo_Some:
  "store_o (onMessage_mongo e1 e2 api t0 t1 w (Some (Parsed i (JString c))) coll) =
     fst (updatePostStatus_mongo e2 i (status_r (fst (moderateContent api c))) w
            (Some (moderationDetails_r (fst (moderateContent api c))))
            (Some (t1 - t0))
            (toxicityScore_r (fst (moderateContent api c)))
            (reviewReason_r (fst (moderateContent api c)))
            (fst (updatePostStatus_mongo e1 i ''processing'' w None None None None coll)))"
  "acked (onMessage_mongo e1 e2 api t0 t1 w (Some (Parsed i (JString c))) coll)"
  "calls (onMessage_mongo e1 e2 api t0 t1 w (Some (Parsed i (JString c))) coll) = snd (moderateContent api c)"
  by (simp_all add: onMessage_mongo_def Let_def split: prod.splits)

lemma onMessage_other:
  "store_o (onMessage e1 e2 api t0 t1 w (Some (Parsed i JOther)) file) =
     fst (updatePostStatus e1 i ''processing'' w None None None None file)"
  "\<not> acked (onMessage e1 e2 api t0 t1 w (Some (Parsed i JOther)) file)"
  "thrown (onMessage e1 e2 api t0 t1 w (Some (Parsed i JOther)) file) = Some TypeError"
  by (simp_all add: onMessage_def split: prod.splits)

lemma onMessage_mongo_other:
  "store_o (onMessage_mongo e1 e2 api t0 t1 w (Some (Parsed i JOther)) coll) =
     fst (updatePostStatus_mongo e1 i ''processing'' w None None None None coll)"
  "\<not> acked (onMessage_mongo e1 e2 api t0 t1 w (Some (Parsed i JOther)) coll)"
  "thrown (onMessage_mongo e1 e2 api t0 t1 w (Some (Parsed i JOther)) coll) = Some TypeError"
  by (simp_all add: onMessage_mongo_def split: prod.splits)


subsection \<open>The classifier\<close>

lemma find_passes:
  "passes_deny_list c \<Longrightarrow>
   find (\<lambda>keyword. str_includes (toLowerCase c) keyword) blockedKeywords = None"
  by (simp add: passes_deny_list_def find_None_iff)

lemma moderateContent_scored:
  assumes "passes_deny_list c" and "api c = Some (t, i, p)"
  shows "status_r (fst (moderateContent api c)) =
           (if max t (max i p) > 0.8 then ''rejected''
            else if max t (max i p) \<ge> 0.5 then ''needs_review'' else ''approved'')"
    and "reviewReason_r (fst (moderateContent api c)) =
           (if max t (max i p) > 0.8 then None
            else if max t (max i p) \<ge> 0.5 then Some ''Borderline content requiring human evaluation''
            else None)"
    and "toxicityScore_r (fst (moderateContent api c)) = Some (max t (max i p))"
    and "snd (moderateContent api c) = [c]"
  using assms(2) by (simp_all add: moderateContent_def find_passes[OF assms(1)] truthy_str_def Let_def)

lemma moderateContent_failed:
  assumes "passes_deny_list c" and "api c = None"
  shows "moderateContent api c =
     (\<lparr>status_r = ''needs_review'',
       moderationDetails_r = ''Failed to analyze content with Perspective API'',
       toxicityScore_r = None,
       reviewReason_r = Some ''API error, requires human review''\<rparr>, [c])"
  using assms(2) by (simp add: moderateContent_def find_passes[OF assms(1)] truthy_str_def)

lemma toLowerCase_blocked: "k \<in> set blockedKeywords \<Longrightarrow> toLowerCase k = k"
  by (auto simp: blockedKeywords_def toLowerCase_def lower_char_def)

lemma sublist_toLowerCase: "sublist w c \<Longrightarrow> sublist (toLowerCase w) (toLowerCase c)"
  unfolding toLowerCase_def sublist_def by (metis map_append)

lemma contains_ci_includes:
  assumes "k \<in> set blockedKeywords" "contains_ci c k"
  shows "str_includes (toLowerCase c) k"
  using assms
  by (auto simp: contains_ci_def equal_ignoring_case_def str_includes_def toLowerCase_blocked dest!: sublist_toLowerCase)

lemma moderateContent_blocked:
  assumes "k \<in> set blockedKeywords" "str_includes (toLowerCase c) k"
  shows "\<exists>k' \<in> set blockedKeywords. moderateContent api c =
     (\<lparr>status_r = ''rejected'',
       moderationDetails_r = ''Content rejected due to egregious keyword: '' @ k',
       toxicityScore_r = None, reviewReason_r = None\<rparr>, [])"
proof -
  obtain k' where f: "find (\<lambda>keyword. str_includes (toLowerCase c) keyword) blockedKeywords = Some k'"
    using assms by (cases "find (\<lambda>keyword. str_includes (toLowerCase c) keyword) blockedKeywords") (auto simp: find_None_iff)
  then have k': "k' \<in> set blockedKeywords" by (auto simp: find_Some_iff)
  then have "k' \<noteq> []" by (auto simp: blockedKeywords_def)
  with f k' show ?thesis by (auto simp: moderateContent_def truthy_str_def str_of_def)
qed

subsection \<open>Submission\<close>

lemma newPost_fields:
  "status (newPost env req) = ''pending''"
  "completedAt (newPost env req) = None"
  "pid (newPost env req) = uuid env"
  "content (newPost env req) = str_of (content_b req)"
  by (simp_all add: newPost_def)


lemma post_api_posts_store:
  "fst (fst (snd (post_api_posts env req (st, q)))) \<in>
     {st, st @ [newPost env req], [newPost env req]}"
  by (simp add: post_api_posts_def readPosts_def writePosts_server_def Let_def)

lemma post_api_posts_mongo_store:
  "fst (fst (snd (post_api_posts_mongo env req (st, q)))) \<in>
     {st, st @ [newPost env req],
      fst (updateOne (uuid env) (\<lambda>d. d\<lparr>status := ''processing''\<rparr>) (st @ [newPost env req]))}"
  by (simp add: post_api_posts_mongo_def Let_def newPost_fields)




subsection \<open>The completion-time invariant\<close>

lemma not_terminal_pending: "\<not> terminal ''pending''" "\<not> terminal ''processing''"
  by (simp_all add: terminal_def)

lemma completed_if_terminal_snoc:
  "completed_if_terminal st \<Longrightarrow> \<not> terminal (status p) \<Longrightarrow> completed_if_terminal (st @ [p])"
  by (auto simp: completed_if_terminal_def)

lemma completed_if_terminal_Nil: "completed_if_terminal []"
  by (simp add: completed_if_terminal_def)

lemma updateOne_inv:
  assumes "completed_if_terminal st"
    and "\<And>p. terminal (status (f p)) \<Longrightarrow> completedAt (f p) \<noteq> None"
  shows "completed_if_terminal (fst (updateOne i f st))"
  unfolding completed_if_terminal_def
proof (intro ballI impI)
  fix p
  assume p: "p \<in> set (fst (updateOne i f st))" and t: "terminal (status p)"
  from updateOne_nth_cases[OF p] show "completedAt p \<noteq> None"
  proof
    assume "p \<in> set st"
    with assms(1) t show ?thesis by (auto simp: completed_if_terminal_def)
  next
    assume "\<exists>q \<in> set st. p = f q"
    with assms(2) t show ?thesis by auto
  qed
qed

lemma updatePostStatus_inv:
  "completed_if_terminal st \<Longrightarrow> completed_if_terminal (fst (updatePostStatus e i s w md pt ts rr st))"
  by (simp add: fst_updatePostStatus updateOne_inv assignFields_terminal)

lemma updatePostStatus_mongo_inv:
  "completed_if_terminal st \<Longrightarrow>
   completed_if_terminal (fst (updatePostStatus_mongo e i s w md pt ts rr st))"
  by (simp add: fst_updatePostStatus_mongo updateOne_inv assignFields_terminal)

lemma post_api_posts_inv:
  assumes "completed_if_terminal st"
  shows "completed_if_terminal (fst (fst (snd (post_api_posts env req (st, q)))))"
proof -
  have n: "\<not> terminal (status (newPost env req))"
    by (simp add: newPost_fields not_terminal_pending)
  have "completed_if_terminal (st @ [newPost env req])"
    using assms n by (rule completed_if_terminal_snoc)
  moreover have "completed_if_terminal ([] @ [newPost env req])"
    using completed_if_terminal_Nil n by (rule completed_if_terminal_snoc)
  ultimately show ?thesis
    using assms post_api_posts_store[of env req st q] by auto
qed

lemma post_api_posts_mongo_inv:
  assumes "completed_if_terminal st"
  shows "completed_if_terminal (fst (fst (snd (post_api_posts_mongo env req (st, q)))))"
proof -
  have n: "\<not> terminal (status (newPost env req))"
    by (simp add: newPost_fields not_terminal_pending)
  have a: "completed_if_terminal (st @ [newPost env req])"
    using assms n by (rule completed_if_terminal_snoc)
  have "completed_if_terminal
          (fst (updateOne (uuid env) (\<lambda>d. d\<lparr>status := ''processing''\<rparr>) (st @ [newPost env req])))"
    using a by (rule updateOne_inv) (simp add: not_terminal_pending)
  with a show ?thesis
    using assms post_api_posts_mongo_store[of env req st q] by auto
qed

lemma completedAt_updateOne:
  "j < length st \<Longrightarrow>
   completedAt (fst (updateOne i (assignFields s w md pt ts rr t) st) ! j) =
     (if findIndex (\<lambda>p. pid p = i) st = Some j \<and> terminal s then Some t
      else completedAt (st ! j))"
  by (simp add: updateOne_nth assignFields_written terminal_def)

subsection \<open>The example data\<close>

lemma example_newPost: "newPost (example_env ch) example_request = example_post"
  by (simp add: newPost_def example_env_def example_request_def example_post_def str_of_def or_default_def)

lemma example_newPost_closed: "newPost example_env_closed example_request = example_post"
  by (simp add: newPost_def example_env_closed_def example_request_def example_post_def str_of_def
        or_default_def)

lemma valid_example_request: "\<not> invalid_request example_request"
  by (simp add: invalid_request_def example_request_def truthy_str_def)

lemma pid_example_post: "pid example_post = ''id-1''"
  by (simp add: example_post_def)

lemma content_example_post: "content example_post = ''this is great''"
  by (simp add: example_post_def)

lemma passes_example: "passes_deny_list ''this is great''"
  by (simp add: passes_deny_list_def blockedKeywords_def str_includes_def toLowerCase_def
        lower_char_def sublist_code prefix_code)

lemma after_approval_eq:
  "after_approval = [example_post\<lparr>status := ''approved'', worker := Some ''worker-4001'',
      moderationDetails := Some ''Content approved'', processingTime := Some 12,
      toxicityScore := Some 0.2, completedAt := Some 2000\<rparr>]"
  by (simp add: after_approval_def fst_updatePostStatus io_ok_def updateOne_def pid_example_post
        assignFields_def truthy_str_def truthy_num_def Let_def)

lemma after_redelivery_eq:
  "after_redelivery = [example_post\<lparr>status := ''processing'', worker := Some ''worker-4001'',
      moderationDetails := Some ''Content approved'', processingTime := Some 12,
      toxicityScore := Some 0.2, completedAt := Some 2000\<rparr>]"
  by (simp add: after_redelivery_def after_approval_eq fst_updatePostStatus io_ok_def updateOne_def
        assignFields_def truthy_str_def truthy_num_def Let_def example_post_def)



section \<open>The claims\<close>

subsection \<open>C1: completion time and terminal status\<close>

text \<open>Against claim C1 as stated. The example post is approved at time 2000; the message is
  delivered again and the worker writes \<^verbatim>\<open>processing\<close> at time 3000. The record then has
  status \<^verbatim>\<open>processing\<close> and still carries the completion time 2000: \<^verbatim>\<open>updatePostStatus\<close>
  has no assignment that clears \<^verbatim>\<open>completedAt\<close>.\<close>

theorem C1_counterexample:
  "status (after_redelivery ! 0) = ''processing'' \<and> completedAt (after_redelivery ! 0) = Some 2000"
  by (simp add: after_redelivery_eq)

text \<open>Claim C1, amended. A post is created without a completion time. A status update sets
  \<^verbatim>\<open>completedAt\<close> of the record it writes to the current time when the new status is
  \<^verbatim>\<open>approved\<close> or \<^verbatim>\<open>rejected\<close>, and leaves \<^verbatim>\<open>completedAt\<close> of every record as it was
  in every other case (it is never reset to null). Hence after every operation (submission
  or status update, file store or MongoDB) every record whose status is \<^verbatim>\<open>approved\<close> or
  \<^verbatim>\<open>rejected\<close> has a non-null \<^verbatim>\<open>completedAt\<close>, provided this held before; the converse
  direction is not kept.\<close>

theorem C1_completedAt_terminal:
  "completedAt (newPost env req) = None \<and>
   (\<forall>j<length st.
      completedAt (fst (updatePostStatus e i s w md pt ts rr st) ! j) =
        (if read_ok e \<and> write_ok e \<and> findIndex (\<lambda>p. pid p = i) st = Some j \<and> terminal s
         then Some (now e) else completedAt (st ! j)) \<and>
      completedAt (fst (updatePostStatus_mongo e i s w md pt ts rr st) ! j) =
        (if db_ok e \<and> findIndex (\<lambda>p. pid p = i) st = Some j \<and> terminal s
         then Some (now e) else completedAt (st ! j))) \<and>
   (completed_if_terminal st \<longrightarrow>
      completed_if_terminal (fst (updatePostStatus e i s w md pt ts rr st)) \<and>
      completed_if_terminal (fst (updatePostStatus_mongo e i s w md pt ts rr st)) \<and>
      completed_if_terminal (fst (fst (snd (post_api_posts env req (st, q))))) \<and>
      completed_if_terminal (fst (fst (snd (post_api_posts_mongo env req (st, q))))))"
proof -
  have "\<forall>j<length st.
      completedAt (fst (updatePostStatus e i s w md pt ts rr st) ! j) =
        (if read_ok e \<and> write_ok e \<and> findIndex (\<lambda>p. pid p = i) st = Some j \<and> terminal s
         then Some (now e) else completedAt (st ! j)) \<and>
      completedAt (fst (updatePostStatus_mongo e i s w md pt ts rr st) ! j) =
        (if db_ok e \<and> findIndex (\<lambda>p. pid p = i) st = Some j \<and> terminal s
         then Some (now e) else completedAt (st ! j))"
    by (auto simp: fst_updatePostStatus fst_updatePostStatus_mongo completedAt_updateOne)
  then show ?thesis
    by (simp add: newPost_fields updatePostStatus_inv updatePostStatus_mongo_inv
          post_api_posts_inv post_api_posts_mongo_inv)
qed

text \<open>The amended C1 at the example: approving sets the completion time, the later
  \<^verbatim>\<open>processing\<close> write keeps it.\<close>

theorem C1_completedAt_terminal_witness:
  "completed_if_terminal [example_post] \<and> completed_if_terminal after_approval \<and>
   completedAt (after_approval ! 0) = Some 2000 \<and>
   completed_if_terminal after_redelivery \<and>
   completedAt (after_redelivery ! 0) = completedAt (after_approval ! 0)"
proof -
  have h: "completed_if_terminal [example_post]"
    by (simp add: completed_if_terminal_def example_post_def terminal_def)
  have f: "findIndex (\<lambda>p. pid p = ''id-1'') [example_post] = Some 0"
    by (simp add: pid_example_post)
  have t: "terminal ''approved''" "\<not> terminal ''processing''"
    by (simp_all add: terminal_def)
  note a = C1_completedAt_terminal[where st = "[example_post]" and e = "io_ok 2000" and i = "''id-1''"
      and s = "''approved''" and w = "''worker-4001''" and md = "Some ''Content approved''"
      and pt = "Some 12" and ts = "Some 0.2" and rr = None]
  note b = C1_completedAt_terminal[where st = after_approval and e = "io_ok 3000" and i = "''id-1''"
      and s = "''processing''" and w = "''worker-4001''" and md = None
      and pt = None and ts = None and rr = None]
  have la: "length after_approval = 1"
    by (simp add: after_approval_def fst_updatePostStatus updateOne_length)
  from a h f t have a': "completed_if_terminal after_approval" "completedAt (after_approval ! 0) = Some 2000"
    by (simp_all add: after_approval_def io_ok_def)
  from b a' la t have "completed_if_terminal after_redelivery"
    "completedAt (after_redelivery ! 0) = completedAt (after_approval ! 0)"
    by (simp_all add: after_redelivery_def io_ok_def)
  with h a' show ?thesis by simp
qed

subsection \<open>C2: score thresholds\<close>

text \<open>Against claim C2 as stated. At a maximum score of 0.6 the status is \<^verbatim>\<open>needs_review\<close>,
  but the review reason is not the string of the claim: the source writes it with a capital
  letter, \<^verbatim>\<open>Borderline content requiring human evaluation\<close>.\<close>

theorem C2_counterexample:
  "passes_deny_list ''this is great'' \<and>
   status_r (fst (moderateContent (stub (Some (0.6, 0.1, 0.2))) ''this is great'')) = ''needs_review'' \<and>
   reviewReason_r (fst (moderateContent (stub (Some (0.6, 0.1, 0.2))) ''this is great'')) \<noteq>
     Some ''borderline content requiring human evaluation''"
proof -
  have s: "stub (Some (0.6, 0.1, 0.2)) ''this is great'' = Some (0.6, 0.1, 0.2)"
    by (simp add: stub_def)
  from moderateContent_scored(1,2)[where api = "stub (Some (0.6, 0.1, 0.2))"
      and c = "''this is great''", OF passes_example s] passes_example show ?thesis
    by simp
qed

text \<open>Claim C2, amended. For every text that passes the deny-list check and for which the
  scoring service answers the scores \<open>t\<close>, \<open>i\<close>, \<open>p\<close>, the decision depends on
  \<open>max t (max i p)\<close> only: above 0.8 the status is \<^verbatim>\<open>rejected\<close>; from 0.5 to 0.8, both
  included, it is \<^verbatim>\<open>needs_review\<close> with the review reason
  \<^verbatim>\<open>Borderline content requiring human evaluation\<close>; below 0.5 it is \<^verbatim>\<open>approved\<close>. The
  score of the decision is the maximum.\<close>

theorem C2_thresholds:
  assumes "passes_deny_list c" and "api c = Some (t, i, p)"
  shows "(max t (max i p) > 0.8 \<longrightarrow> status_r (fst (moderateContent api c)) = ''rejected'') \<and>
         (0.5 \<le> max t (max i p) \<and> max t (max i p) \<le> 0.8 \<longrightarrow>
            status_r (fst (moderateContent api c)) = ''needs_review'' \<and>
            reviewReason_r (fst (moderateContent api c)) =
              Some ''Borderline content requiring human evaluation'') \<and>
         (max t (max i p) < 0.5 \<longrightarrow> status_r (fst (moderateContent api c)) = ''approved'') \<and>
         toxicityScore_r (fst (moderateContent api c)) = Some (max t (max i p))"
  using moderateContent_scored[where api = api and c = c, OF assms] by simp

text \<open>The boundary values of the specification: 0.80 gives \<^verbatim>\<open>needs_review\<close>, 0.8000001 gives
  \<^verbatim>\<open>rejected\<close>, 0.4999 gives \<^verbatim>\<open>approved\<close>.\<close>

theorem C2_thresholds_witness:
  "passes_deny_list ''this is great'' \<and>
   status_r (fst (moderateContent (stub (Some (0.80, 0.1, 0.2))) ''this is great'')) = ''needs_review'' \<and>
   reviewReason_r (fst (moderateContent (stub (Some (0.80, 0.1, 0.2))) ''this is great'')) =
     Some ''Borderline content requiring human evaluation'' \<and>
   status_r (fst (moderateContent (stub (Some (0.1, 0.8000001, 0.2))) ''this is great'')) = ''rejected'' \<and>
   status_r (fst (moderateContent (stub (Some (0.1, 0.2, 0.4999))) ''this is great'')) = ''approved''"
  using passes_example
    C2_thresholds[of "''this is great''" "stub (Some (0.80, 0.1, 0.2))" "0.80" "0.1" "0.2"]
    C2_thresholds[of "''this is great''" "stub (Some (0.1, 0.8000001, 0.2))" "0.1" "0.8000001" "0.2"]
    C2_thresholds[of "''this is great''" "stub (Some (0.1, 0.2, 0.4999))" "0.1" "0.2" "0.4999"]
  by (simp add: stub_def)

subsection \<open>C3: the deny list short-circuits the scoring call\<close>

text \<open>Claim C3. For every text that contains one of the blocked keywords under
  case-insensitive comparison, and whatever the scoring service would answer,
  \<^verbatim>\<open>moderateContent\<close> returns the status \<^verbatim>\<open>rejected\<close> with a null score and sends nothing to
  the scoring service.\<close>

theorem C3_deny_list:
  assumes "\<exists>k \<in> set blockedKeywords. contains_ci c k"
  shows "status_r (fst (moderateContent api c)) = ''rejected'' \<and>
         toxicityScore_r (fst (moderateContent api c)) = None \<and>
         snd (moderateContent api c) = []"
proof -
  from assms obtain k where "k \<in> set blockedKeywords" "str_includes (toLowerCase c) k"
    by (auto dest: contains_ci_includes)
  from moderateContent_blocked[OF this, of api] show ?thesis by auto
qed

text \<open>Claim C3 at a text that spells a blocked keyword in mixed case, with a scoring service
  that is down.\<close>

theorem C3_deny_list_witness:
  "(\<exists>k \<in> set blockedKeywords. contains_ci ''so FuCk it'' k) \<and>
   status_r (fst (moderateContent (stub None) ''so FuCk it'')) = ''rejected'' \<and>
   toxicityScore_r (fst (moderateContent (stub None) ''so FuCk it'')) = None \<and>
   snd (moderateContent (stub None) ''so FuCk it'') = []"
proof -
  have "sublist ''FuCk'' (''so '' @ ''FuCk'' @ '' it'')"
    unfolding sublist_def by blast
  then have "contains_ci ''so FuCk it'' ''fuck''"
    unfolding contains_ci_def
    by (intro bexI[where x = "''FuCk''"])
       (simp_all add: equal_ignoring_case_def toLowerCase_def lower_char_def)
  then have h: "\<exists>k \<in> set blockedKeywords. contains_ci ''so FuCk it'' k"
    by (simp add: blockedKeywords_def)
  from h C3_deny_list[OF h, of "stub None"] show ?thesis by simp
qed

subsection \<open>C4: what the later write overwrites\<close>




subsection \<open>C5: a failed store write and the acknowledgement\<close>

text \<open>Against claim C5 as stated. Both store writes of the handler fail; the store keeps the
  \<^verbatim>\<open>pending\<close> post and the message is acknowledged all the same.\<close>

theorem C5_counterexample:
  "acked (onMessage (io_write_fails 2000) (io_write_fails 3000) (stub (Some (0.2, 0.1, 0.1)))
            2000 2500 ''worker-4001'' (Some (message_of example_post)) [example_post]) \<and>
   store_o (onMessage (io_write_fails 2000) (io_write_fails 3000) (stub (Some (0.2, 0.1, 0.1)))
            2000 2500 ''worker-4001'' (Some (message_of example_post)) [example_post]) = [example_post]"
  by (simp add: message_of_def onMessage_Some fst_updatePostStatus io_write_fails_def)

text \<open>Claim C5, amended. \<^verbatim>\<open>updatePostStatus\<close> catches the error of a failed store write: it logs
  it, leaves the store unchanged and returns normally. The handler therefore acknowledges
  every message it receives after its two status updates have returned, whether or not
  their writes succeeded.\<close>

theorem C5_errors_swallowed:
  "acked (onMessage e1 e2 api t0 t1 w (Some (Parsed j (JString c))) st) \<and>
   acked (onMessage_mongo e1 e2 api t0 t1 w (Some (Parsed j (JString c))) st) \<and>
   (\<not> write_ok e \<longrightarrow> fst (updatePostStatus e i s w md pt ts rr st) = st) \<and>
   (read_ok e \<and> \<not> write_ok e \<and> i \<in> pid ` set st \<longrightarrow>
      snd (updatePostStatus e i s w md pt ts rr st) =
        [''Error writing posts:'', ''Error updating post '' @ i @ '':'']) \<and>
   (\<not> db_ok e \<longrightarrow>
      updatePostStatus_mongo e i s w md pt ts rr st =
        (st, [w @ '': Error updating post '' @ i @ '':'']))"
  by (simp add: onMessage_Some onMessage_mongo_Some fst_updatePostStatus
        updatePostStatus_write_fails_log updatePostStatus_mongo_def Let_def)

text \<open>The amended C5 at the example: a failed write leaves the store as it was and logs the
  error.\<close>

theorem C5_errors_swallowed_witness:
  "\<not> write_ok (io_write_fails 3000) \<and>
   fst (updatePostStatus (io_write_fails 3000) ''id-1'' ''approved'' ''worker-4001''
          None None None None [example_post]) = [example_post] \<and>
   snd (updatePostStatus (io_write_fails 3000) ''id-1'' ''approved'' ''worker-4001''
          None None None None [example_post]) =
     [''Error writing posts:'', ''Error updating post id-1:''] \<and>
   updatePostStatus_mongo (io_write_fails 3000) ''id-1'' ''approved'' ''worker-4001''
          None None None None [example_post] =
     ([example_post], [''worker-4001: Error updating post id-1:''])"
  using C5_errors_swallowed[where w = "''worker-4001''" and st = "[example_post]"
      and e = "io_write_fails 3000" and i = "''id-1''" and s = "''approved''" and md = None
      and pt = None and ts = None and rr = None]
  by (simp add: io_write_fails_def pid_example_post)

subsection \<open>C6: the scoring service fails\<close>

text \<open>Against claim C6 as stated. When the scoring call fails, the review reason is not the
  string of the claim: the source has \<^verbatim>\<open>API error, requires human review\<close>.\<close>

theorem C6_counterexample:
  "passes_deny_list ''this is great'' \<and> stub None ''this is great'' = None \<and>
   reviewReason_r (fst (moderateContent (stub None) ''this is great'')) \<noteq>
     Some ''scoring unavailable, requires human review''"
proof -
  have s: "stub None ''this is great'' = None"
    by (simp add: stub_def)
  from moderateContent_failed[where api = "stub None" and c = "''this is great''",
      OF passes_example s] passes_example s show ?thesis
    by simp
qed

text \<open>Claim C6, amended. For every message whose text passes the deny-list check and for which
  the scoring call fails, the decision is \<^verbatim>\<open>needs_review\<close> with a null score and the review
  reason \<^verbatim>\<open>API error, requires human review\<close>; the handler acknowledges the message; and
  when the post is in the store and the store calls of the second status update succeed, the
  stored post has the status \<^verbatim>\<open>needs_review\<close> and that review reason.\<close>

theorem C6_scoring_failure:
  assumes "passes_deny_list (content m)" and "api (content m) = None"
  shows
    "moderateContent api (content m) =
       (\<lparr>status_r = ''needs_review'',
         moderationDetails_r = ''Failed to analyze content with Perspective API'',
         toxicityScore_r = None,
         reviewReason_r = Some ''API error, requires human review''\<rparr>, [content m]) \<and>
     acked (onMessage e1 e2 api t0 t1 w (Some (message_of m)) st) \<and>
     acked (onMessage_mongo e1 e2 api t0 t1 w (Some (message_of m)) st) \<and>
     (read_ok e2 \<and> write_ok e2 \<and> findIndex (\<lambda>p. pid p = pid m) st = Some k \<longrightarrow>
        status (store_o (onMessage e1 e2 api t0 t1 w (Some (message_of m)) st) ! k) = ''needs_review'' \<and>
        reviewReason (store_o (onMessage e1 e2 api t0 t1 w (Some (message_of m)) st) ! k) =
          Some ''API error, requires human review'') \<and>
     (db_ok e2 \<and> findIndex (\<lambda>p. pid p = pid m) st = Some k \<longrightarrow>
        status (store_o (onMessage_mongo e1 e2 api t0 t1 w (Some (message_of m)) st) ! k) = ''needs_review'' \<and>
        reviewReason (store_o (onMessage_mongo e1 e2 api t0 t1 w (Some (message_of m)) st) ! k) =
          Some ''API error, requires human review'')"
proof -
  have d: "moderateContent api (content m) =
       (\<lparr>status_r = ''needs_review'',
         moderationDetails_r = ''Failed to analyze content with Perspective API'',
         toxicityScore_r = None,
         reviewReason_r = Some ''API error, requires human review''\<rparr>, [content m])"
    by (rule moderateContent_failed[where api = api and c = "content m", OF assms])
  have hf: "status (store_o (onMessage e1 e2 api t0 t1 w (Some (message_of m)) st) ! k) = ''needs_review'' \<and>
        reviewReason (store_o (onMessage e1 e2 api t0 t1 w (Some (message_of m)) st) ! k) =
          Some ''API error, requires human review''"
    if "read_ok e2" "write_ok e2" "findIndex (\<lambda>p. pid p = pid m) st = Some k"
  proof -
    have "findIndex (\<lambda>p. pid p = pid m)
            (fst (updatePostStatus e1 (pid m) ''processing'' w None None None None st)) = Some k"
      using that(3) by (simp add: updatePostStatus_findIndex)
    from updatePostStatus_found[OF that(1,2) this] show ?thesis
      by (simp add: message_of_def onMessage_Some d assignFields_written truthy_str_def)
  qed
  have hm: "status (store_o (onMessage_mongo e1 e2 api t0 t1 w (Some (message_of m)) st) ! k) = ''needs_review'' \<and>
        reviewReason (store_o (onMessage_mongo e1 e2 api t0 t1 w (Some (message_of m)) st) ! k) =
          Some ''API error, requires human review''"
    if "db_ok e2" "findIndex (\<lambda>p. pid p = pid m) st = Some k"
  proof -
    have "findIndex (\<lambda>p. pid p = pid m)
            (fst (updatePostStatus_mongo e1 (pid m) ''processing'' w None None None None st)) = Some k"
      using that(2) by (simp add: updatePostStatus_mongo_findIndex)
    from updatePostStatus_mongo_found[OF that(1) this] show ?thesis
      by (simp add: message_of_def onMessage_mongo_Some d assignFields_written truthy_str_def)
  qed
  from d hf hm show ?thesis
    by (simp add: message_of_def onMessage_Some(2) onMessage_mongo_Some(2))
qed

text \<open>The amended C6 at the example post with a scoring service that is down.\<close>

theorem C6_scoring_failure_witness:
  "passes_deny_list (content example_post) \<and> stub None (content example_post) = None \<and>
   status_r (fst (moderateContent (stub None) (content example_post))) = ''needs_review'' \<and>
   toxicityScore_r (fst (moderateContent (stub None) (content example_post))) = None \<and>
   acked (onMessage (io_ok 2000) (io_ok 3000) (stub None) 2000 2500 ''worker-4001''
            (Some (message_of example_post)) [example_post]) \<and>
   status (store_o (onMessage (io_ok 2000) (io_ok 3000) (stub None) 2000 2500 ''worker-4001''
            (Some (message_of example_post)) [example_post]) ! 0) = ''needs_review'' \<and>
   status (store_o (onMessage_mongo (io_ok 2000) (io_ok 3000) (stub None) 2000 2500 ''worker-4001''
            (Some (message_of example_post)) [example_post]) ! 0) = ''needs_review''"
proof -
  have p: "passes_deny_list (content example_post)"
    by (simp add: content_example_post passes_example)
  have a: "stub None (content example_post) = None"
    by (simp add: stub_def)
  have f: "findIndex (\<lambda>p. pid p = pid example_post) [example_post] = Some 0"
    by simp
  from C6_scoring_failure[where m = example_post and api = "stub None" and ?e1.0 = "io_ok 2000"
      and ?e2.0 = "io_ok 3000" and ?t0.0 = 2000 and ?t1.0 = 2500 and w = "''worker-4001''"
      and st = "[example_post]" and k = 0, OF p a] p a f
  show ?thesis by (simp add: io_ok_def)
qed

subsection \<open>C7: validation and creation at submission\<close>




subsection \<open>C8: submission while the queue cannot be reached\<close>

text \<open>Against claim C8 as stated. The channel was assigned and has since closed, so that
  \<^verbatim>\<open>sendToQueue\<close> throws (the server never resets \<^verbatim>\<open>channel\<close>). The post is stored, but the
  request is answered with 500 and the line logged is the error of the handler, not the
  warning.\<close>

theorem C8_counterexample:
  "\<not> invalid_request example_request \<and>
   channel example_env_closed \<and> \<not> send_ok example_env_closed \<and>
   post_api_posts example_env_closed example_request ([], []) =
     (\<lparr>code = 500, body = ErrorBody ''Failed to add post''\<rparr>, ([example_post], []),
      [''Error adding post:'']) \<and>
   post_api_posts_mongo example_env_closed example_request ([], []) =
     (\<lparr>code = 500, body = ErrorBody ''Failed to add post''\<rparr>, ([example_post], []),
      [''Error adding post:''])"
proof -
  have e: "channel example_env_closed" "\<not> send_ok example_env_closed"
    "sread_ok example_env_closed" "swrite_ok example_env_closed" "backup_ok example_env_closed"
    "insert_ok example_env_closed"
    by (simp_all add: example_env_closed_def)
  show ?thesis
    by (simp add: valid_example_request e post_api_posts_def post_api_posts_mongo_def
          readPosts_def writePosts_server_def Let_def example_newPost_closed)
qed

text \<open>Claim C8, amended. For every valid submission for which the store calls succeed and the
  message cannot be published, the post is appended to the store with the status
  \<^verbatim>\<open>pending\<close> and with the title, content and author of the request, and nothing is
  published. When the channel was never assigned, the warning is logged and the request is
  answered with 201; when the channel was assigned and \<^verbatim>\<open>sendToQueue\<close> throws, the request
  is answered with 500 and \<^verbatim>\<open>Error adding post:\<close> is logged instead of the warning. This
  holds for the file-store server and for the MongoDB server.\<close>

theorem C8_queue_unavailable:
  assumes "\<not> invalid_request req"
    and "sread_ok e" "swrite_ok e" "backup_ok e" "insert_ok e"
  shows
    "(\<not> channel e \<longrightarrow>
        post_api_posts e req (st, q) =
          (\<lparr>code = 201, body = PostBody (newPost e req)\<rparr>, (st @ [newPost e req], q),
           [''RabbitMQ channel not available, post will not be processed'']) \<and>
        post_api_posts_mongo e req (st, q) =
          (\<lparr>code = 201, body = PostBody (newPost e req)\<rparr>, (st @ [newPost e req], q),
           [''RabbitMQ channel not available, post will not be processed''])) \<and>
     (channel e \<and> \<not> send_ok e \<longrightarrow>
        post_api_posts e req (st, q) =
          (\<lparr>code = 500, body = ErrorBody ''Failed to add post''\<rparr>, (st @ [newPost e req], q),
           [''Error adding post:'']) \<and>
        post_api_posts_mongo e req (st, q) =
          (\<lparr>code = 500, body = ErrorBody ''Failed to add post''\<rparr>, (st @ [newPost e req], q),
           [''Error adding post:''])) \<and>
     status (newPost e req) = ''pending'' \<and>
     content_b req = Some (content (newPost e req)) \<and>
     title_b req = Some (title (newPost e req)) \<and>
     author_b req = Some (author (newPost e req))"
proof -
  have "content_b req = Some (content (newPost e req)) \<and>
     title_b req = Some (title (newPost e req)) \<and>
     author_b req = Some (author (newPost e req))"
    using assms(1)
    by (auto simp: invalid_request_def truthy_str_def newPost_def str_of_def split: option.splits)
  with assms show ?thesis
    by (simp add: post_api_posts_def post_api_posts_mongo_def readPosts_def writePosts_server_def
          Let_def newPost_fields)
qed

text \<open>The amended C8 at the example submission, without a channel and with a closed one.\<close>

theorem C8_queue_unavailable_witness:
  "\<not> invalid_request example_request \<and> \<not> channel (example_env False) \<and>
   post_api_posts (example_env False) example_request ([], []) =
     (\<lparr>code = 201, body = PostBody example_post\<rparr>, ([example_post], []),
      [''RabbitMQ channel not available, post will not be processed'']) \<and>
   post_api_posts_mongo (example_env False) example_request ([], []) =
     (\<lparr>code = 201, body = PostBody example_post\<rparr>, ([example_post], []),
      [''RabbitMQ channel not available, post will not be processed'']) \<and>
   channel example_env_closed \<and> \<not> send_ok example_env_closed \<and>
   fst (snd (post_api_posts example_env_closed example_request ([], []))) = ([example_post], []) \<and>
   fst (snd (post_api_posts_mongo example_env_closed example_request ([], []))) = ([example_post], []) \<and>
   status example_post = ''pending'' \<and> content_b example_request = Some (content example_post)"
proof -
  have e: "\<not> channel (example_env False)" "sread_ok (example_env False)"
    "swrite_ok (example_env False)" "backup_ok (example_env False)" "insert_ok (example_env False)"
    by (simp_all add: example_env_def)
  have c: "channel example_env_closed" "\<not> send_ok example_env_closed"
    "sread_ok example_env_closed" "swrite_ok example_env_closed" "backup_ok example_env_closed"
    "insert_ok example_env_closed"
    by (simp_all add: example_env_closed_def)
  note v = valid_example_request
  from C8_queue_unavailable[OF v e(2-5), of "[]" "[]"] v e(1)
  have 1: "post_api_posts (example_env False) example_request ([], []) =
     (\<lparr>code = 201, body = PostBody example_post\<rparr>, ([example_post], []),
      [''RabbitMQ channel not available, post will not be processed'']) \<and>
   post_api_posts_mongo (example_env False) example_request ([], []) =
     (\<lparr>code = 201, body = PostBody example_post\<rparr>, ([example_post], []),
      [''RabbitMQ channel not available, post will not be processed'']) \<and>
   status example_post = ''pending'' \<and> content_b example_request = Some (content example_post)"
    by (simp add: example_newPost)
  from C8_queue_unavailable[OF v c(3-6), of "[]" "[]"] c(1,2)
  have 2: "fst (snd (post_api_posts example_env_closed example_request ([], []))) = ([example_post], []) \<and>
   fst (snd (post_api_posts_mongo example_env_closed example_request ([], []))) = ([example_post], [])"
    by (simp add: example_newPost_closed)
  from v e(1) c(1,2) 1 2 show ?thesis by simp
qed

subsection \<open>C9: what a status update leaves alone\<close>

text \<open>Claim C9. Every status update, of either worker and whatever the store calls do, keeps
  the number of records; keeps identifier, title, content, author, category, server and
  creation time of every record; leaves every record other than the first one with the given
  identifier exactly as it was; and keeps the set of identifiers in the store.\<close>

theorem C9_frame:
  "length (fst (updatePostStatus e i s w md pt ts rr st)) = length st \<and>
   map frame (fst (updatePostStatus e i s w md pt ts rr st)) = map frame st \<and>
   (\<forall>j<length st. findIndex (\<lambda>p. pid p = i) st \<noteq> Some j \<longrightarrow>
      fst (updatePostStatus e i s w md pt ts rr st) ! j = st ! j) \<and>
   pid ` set (fst (updatePostStatus e i s w md pt ts rr st)) = pid ` set st \<and>
   length (fst (updatePostStatus_mongo e i s w md pt ts rr st)) = length st \<and>
   map frame (fst (updatePostStatus_mongo e i s w md pt ts rr st)) = map frame st \<and>
   (\<forall>j<length st. findIndex (\<lambda>p. pid p = i) st \<noteq> Some j \<longrightarrow>
      fst (updatePostStatus_mongo e i s w md pt ts rr st) ! j = st ! j) \<and>
   pid ` set (fst (updatePostStatus_mongo e i s w md pt ts rr st)) = pid ` set st"
  using updateOne_frame_props[of "assignFields s w md pt ts rr (now e)" i st, OF frame_assignFields]
  by (simp add: fst_updatePostStatus fst_updatePostStatus_mongo)

text \<open>Claim C9 at a store with two posts, of which the first is approved.\<close>

theorem C9_frame_witness:
  "map frame (fst (updatePostStatus (io_ok 2000) ''id-1'' ''approved'' ''worker-4001''
                     (Some ''Content approved'') (Some 12) (Some 0.2) None
                     [example_post, other_post])) = [frame example_post, frame other_post] \<and>
   fst (updatePostStatus (io_ok 2000) ''id-1'' ''approved'' ''worker-4001''
          (Some ''Content approved'') (Some 12) (Some 0.2) None [example_post, other_post]) ! 1 =
     other_post \<and>
   fst (updatePostStatus_mongo (io_ok 2000) ''id-1'' ''approved'' ''worker-4001''
          (Some ''Content approved'') (Some 12) (Some 0.2) None [example_post, other_post]) ! 1 =
     other_post"
proof -
  have f: "findIndex (\<lambda>p. pid p = ''id-1'') [example_post, other_post] = Some 0"
    by (simp add: pid_example_post)
  from C9_frame[of "io_ok 2000" "''id-1''" "''approved''" "''worker-4001''" "Some ''Content approved''"
      "Some 12" "Some 0.2" None "[example_post, other_post]"] f
  show ?thesis by simp
qed

subsection \<open>C10: a message for an unknown post\<close>

text \<open>Against claim C10 as stated. A message whose identifier is not in the store and whose
  content is not a string (the number 123, say): the handler throws a \<^verbatim>\<open>TypeError\<close> at
  \<^verbatim>\<open>content.toLowerCase()\<close> and never reaches \<^verbatim>\<open>channel.ack\<close>.\<close>

theorem C10_counterexample:
  "''id-2'' \<notin> pid ` set [example_post] \<and>
   \<not> acked (onMessage (io_ok 2000) (io_ok 3000) (stub None) 2000 2500 ''worker-4001''
              (Some (Parsed ''id-2'' JOther)) [example_post]) \<and>
   thrown (onMessage (io_ok 2000) (io_ok 3000) (stub None) 2000 2500 ''worker-4001''
              (Some (Parsed ''id-2'' JOther)) [example_post]) = Some TypeError \<and>
   \<not> acked (onMessage_mongo (io_ok 2000) (io_ok 3000) (stub None) 2000 2500 ''worker-4001''
              (Some (Parsed ''id-2'' JOther)) [example_post])"
  by (simp add: onMessage_other onMessage_mongo_other pid_example_post)

text \<open>Claim C10, amended. When no record in the store has the identifier of the message, a
  status update for that identifier leaves the store exactly as it was (no record is
  created), and so does the handler. The handler acknowledges the message when its content
  is a string; when the content is not a string, the handler throws a \<^verbatim>\<open>TypeError\<close> before
  the acknowledgement and the message stays unacknowledged. This holds for both workers and
  whatever the store calls and the scoring service do.\<close>

theorem C10_unknown_id:
  assumes "i \<notin> pid ` set st"
  shows
    "fst (updatePostStatus e i s w md pt ts rr st) = st \<and>
     fst (updatePostStatus_mongo e i s w md pt ts rr st) = st \<and>
     store_o (onMessage e1 e2 api t0 t1 w (Some (Parsed i c)) st) = st \<and>
     store_o (onMessage_mongo e1 e2 api t0 t1 w (Some (Parsed i c)) st) = st \<and>
     acked (onMessage e1 e2 api t0 t1 w (Some (Parsed i c)) st) = (c \<noteq> JOther) \<and>
     acked (onMessage_mongo e1 e2 api t0 t1 w (Some (Parsed i c)) st) = (c \<noteq> JOther) \<and>
     (c = JOther \<longrightarrow>
        thrown (onMessage e1 e2 api t0 t1 w (Some (Parsed i c)) st) = Some TypeError \<and>
        thrown (onMessage_mongo e1 e2 api t0 t1 w (Some (Parsed i c)) st) = Some TypeError)"
proof (cases c)
  case (JString x)
  with assms show ?thesis
    by (simp add: onMessage_Some onMessage_mongo_Some fst_updatePostStatus
          fst_updatePostStatus_mongo updateOne_absent)
next
  case JOther
  with assms show ?thesis
    by (simp add: onMessage_other onMessage_mongo_other fst_updatePostStatus
          fst_updatePostStatus_mongo updateOne_absent)
qed

text \<open>The amended C10 at a message whose post is not in the store, once with a string and once
  with another value as content.\<close>

theorem C10_unknown_id_witness:
  "''id-2'' \<notin> pid ` set [example_post] \<and>
   fst (updatePostStatus (io_ok 2000) ''id-2'' ''processing'' ''worker-4001''
          None None None None [example_post]) = [example_post] \<and>
   store_o (onMessage (io_ok 2000) (io_ok 3000) (stub None) 2000 2500 ''worker-4001''
              (Some (Parsed ''id-2'' (JString ''second post''))) [example_post]) = [example_post] \<and>
   acked (onMessage (io_ok 2000) (io_ok 3000) (stub None) 2000 2500 ''worker-4001''
              (Some (Parsed ''id-2'' (JString ''second post''))) [example_post]) \<and>
   store_o (onMessage_mongo (io_ok 2000) (io_ok 3000) (stub None) 2000 2500 ''worker-4001''
              (Some (Parsed ''id-2'' JOther)) [example_post]) = [example_post] \<and>
   thrown (onMessage_mongo (io_ok 2000) (io_ok 3000) (stub None) 2000 2500 ''worker-4001''
              (Some (Parsed ''id-2'' JOther)) [example_post]) = Some TypeError"
proof -
  have h: "''id-2'' \<notin> pid ` set [example_post]"
    by (simp add: pid_example_post)
  note a = C10_unknown_id[OF h, where e = "io_ok 2000" and s = "''processing''"
      and w = "''worker-4001''" and md = None and pt = None and ts = None and rr = None
      and ?e1.0 = "io_ok 2000" and ?e2.0 = "io_ok 3000" and api = "stub None" and ?t0.0 = 2000
      and ?t1.0 = 2500 and c = "JString ''second post''"]
  note b = C10_unknown_id[OF h, where w = "''worker-4001''"
      and ?e1.0 = "io_ok 2000" and ?e2.0 = "io_ok 3000" and api = "stub None" and ?t0.0 = 2000
      and ?t1.0 = 2500 and c = JOther]
  from h a b show ?thesis by simp
qed

end
